theory Spec2Isabelle
  imports Complex_Main "HOL-Library.List_Lexorder" "HOL-Library.Char_ord"
begin

section \<open>Data model\<close>

text \<open>
  The tables of the application are pandas/geopandas data frames. A frame is modelled as
  the list of its rows, in row order, and a row as a record of the columns the code
  reads. Coordinates are the projected x and y of a point (floats in the program, reals
  here: the code only compares them, takes minima and maxima, and adds offsets).

  \<^item> \<open>cent\<close>, \<open>sub\<close>: one row per sample. \<open>geometry\<close> is \<open>None\<close> for the empty point.
    The clade columns (\<open>snp3\<close>, \<open>snp12\<close>, ...) are kept as an association list from the
    column name to the label; \<open>load_data\<close> converts them with \<open>astype(str)\<close>, so a
    missing value reads \<open>nan\<close> and no label is null.
  \<^item> \<open>lpis_cent\<close>: one row per land parcel centroid, keyed by herd number.
  \<^item> \<open>moves\<close>: one row per movement event.
\<close>

type_synonym point = "real \<times> real"

record sample =
  Animal_ID :: string
  HERD_NO :: string
  Species :: string
  County :: string
  geometry :: "point option"
  labels :: "(string \<times> string) list"

record parcel =
  SPH_HERD_N :: string
  centroid :: point

record move =
  tag :: string
  move_to :: string
  move_date :: int

datatype error = IndexError | TypeError

text \<open>\<open>df[level]\<close> read at one row.\<close>

definition column :: "string \<Rightarrow> sample \<Rightarrow> string" where
  "column level s = (case map_of (labels s) level of Some v \<Rightarrow> v | None \<Rightarrow> ''nan'')"

section \<open>The pandas operations the code calls\<close>

text \<open>\<open>Series.unique()\<close>: the distinct values in order of first appearance.\<close>

fun unique :: "'a list \<Rightarrow> 'a list" where
  "unique [] = []"
| "unique (x # xs) = x # unique (filter (\<lambda>y. y \<noteq> x) xs)"

text \<open>
  \<open>Series.value_counts()\<close>: each distinct value with its number of occurrences, by
  descending count; values with equal counts stay in order of first appearance.
\<close>

definition value_counts :: "'a list \<Rightarrow> ('a \<times> nat) list" where
  "value_counts xs =
     sort_key (\<lambda>(v, c). - int c) (map (\<lambda>v. (v, count_list xs v)) (unique xs))"

section \<open>Clade list\<close>

text \<open>
  \<open>App.update_clades\<close> (btbwgstool): the rows put into the clade tree widget, label and
  size (the size is shown as text).
\<close>

definition update_clades :: "string \<Rightarrow> sample list \<Rightarrow> (string \<times> nat) list" where
  "update_clades level cent =
     (let clades = value_counts (map (column level) cent);
          clades = filter (\<lambda>(cl, size). 1 < size) clades
      in clades)"

text \<open>The label that stands for "no cluster".\<close>

definition sentinel :: "string \<Rightarrow> bool" where
  "sentinel l = (l = ''-1'' \<or> l = '''')"

definition unclustered :: "string \<Rightarrow> sample \<Rightarrow> bool" where
  "unclustered level s = sentinel (column level s)"

text \<open>A sample with one clade column and no location, for examples.\<close>

definition labelled :: "string \<Rightarrow> string \<Rightarrow> string \<Rightarrow> sample" where
  "labelled a level l =
     \<lparr>Animal_ID = a, HERD_NO = ''H'', Species = ''Bovine'', County = ''Monaghan'',
      geometry = None, labels = [(level, l)]\<rparr>"

section \<open>Cluster members\<close>

text \<open>
  \<open>get_cluster_samples\<close>: the samples of the clusters with at least \<open>n\<close> members, sorted
  by label. (\<open>sort_values\<close> is modelled as a stable sort; the order of the rows that share
  a label plays no part below.)
\<close>

definition get_cluster_samples :: "sample list \<Rightarrow> string \<Rightarrow> int \<Rightarrow> sample list" where
  "get_cluster_samples cent col n =
     (let v = value_counts (map (column col) cent);
          v = filter (\<lambda>(l, k). n \<le> int k) v;
          clusts = map fst v;
          g = filter (\<lambda>s. column col s \<noteq> ''-1'') cent;
          g = filter (\<lambda>s. column col s \<in> set clusts) g;
          g = sort_key (column col) g
      in g)"

text \<open>
  The specification's \<open>clusterMembers\<close>, written from its words for comparison: the
  labels other than the sentinel with count at least \<open>minSize\<close>, by descending count,
  equal counts by ascending label.
\<close>

definition clusterMembers_spec :: "string list \<Rightarrow> int \<Rightarrow> string list" where
  "clusterMembers_spec ls minSize =
     sort_key (\<lambda>l. - int (count_list ls l))
       (sort (filter (\<lambda>l. \<not> sentinel l \<and> minSize \<le> int (count_list ls l)) (unique ls)))"

section \<open>Session state and selection\<close>

text \<open>
  The fields of \<open>App\<close> that the selection methods read and write: the full sample table
  \<open>cent\<close>, the active subset \<open>sub\<close>, the plot title, the stored plot limits and the
  state of the jitter button. Widget values a method reads (the clade level, the selected
  clades, the visible plot limits) are arguments.
\<close>

record app =
  cent :: "sample list"
  sub :: "sample list"
  title :: "string option"
  lims :: "(real \<times> real \<times> real \<times> real) option"
  jitterb :: bool

text \<open>\<open>sep.join(xs)\<close> and \<open>str(n)\<close> for a length.\<close>

fun join :: "string \<Rightarrow> string list \<Rightarrow> string" where
  "join sep [] = []"
| "join sep [x] = x"
| "join sep (x # y # ys) = x @ sep @ join sep (y # ys)"

fun str_nat :: "nat \<Rightarrow> string" where
  "str_nat n = (if n < 10 then [''0123456789'' ! n]
                else str_nat (n div 10) @ [''0123456789'' ! (n mod 10)])"

text \<open>
  \<open>jitter_points\<close>: the two normal draws \<open>a\<close>, \<open>b\<close> are an argument. \<open>App.update\<close> is
  modelled by what it does to the session state, which is the jitter step (the drawing
  itself is \<open>plot_single_cluster\<close> and \<open>plot_moves\<close> below); \<open>noise i\<close> is the pair drawn
  for row \<open>i\<close> of \<open>sub\<close>.
\<close>

definition jitter_points :: "sample \<Rightarrow> real \<times> real \<Rightarrow> point option" where
  "jitter_points r ab =
     (case geometry r of None \<Rightarrow> None | Some (x, y) \<Rightarrow> Some (x + fst ab, y + snd ab))"

definition update :: "(nat \<Rightarrow> real \<times> real) \<Rightarrow> app \<Rightarrow> app" where
  "update noise st =
     (if jitterb st
      then st\<lparr>sub := map (\<lambda>(i, r). r\<lparr>geometry := jitter_points r (noise i)\<rparr>)
                         (enumerate 0 (sub st))\<rparr>
      else st)"

definition still :: "nat \<Rightarrow> real \<times> real" where
  "still i = (0, 0)"

text \<open>\<open>App.plot_selected_clade\<close> (btbwgstool) and \<open>App.plot_selected\<close> (btbgenietool).\<close>

definition plot_selected_clade ::
    "(nat \<Rightarrow> real \<times> real) \<Rightarrow> string \<Rightarrow> string list \<Rightarrow> app \<Rightarrow> app" where
  "plot_selected_clade noise level clades st =
     (if length clades = 0 then st
      else let st = st\<lparr>sub := filter (\<lambda>s. column level s \<in> set clades) (cent st)\<rparr>;
               cl = join '','' clades;
               st = st\<lparr>title := Some (level @ ''='' @ cl @ '' n='' @ str_nat (length (sub st)))\<rparr>;
               st = st\<lparr>lims := None\<rparr>
           in update noise st)"

definition plot_selected :: "string \<Rightarrow> string list \<Rightarrow> app \<Rightarrow> app" where
  "plot_selected level clades st =
     (if length clades = 0 then st
      else st\<lparr>sub := filter (\<lambda>s. column level s \<in> set clades) (cent st)\<rparr>)"

text \<open>
  \<open>df.cx[xmin:xmax, ymin:ymax]\<close>: geopandas keeps the rows whose geometry intersects the
  rectangle \<open>box(xmin, ymin, xmax, ymax)\<close>. A point intersects a rectangle when it lies in
  it or on its border; the empty point intersects nothing.
\<close>

definition intersects_box :: "point option \<Rightarrow> real \<Rightarrow> real \<Rightarrow> real \<Rightarrow> real \<Rightarrow> bool" where
  "intersects_box g minx miny maxx maxy =
     (case g of
        None \<Rightarrow> False
      | Some (x, y) \<Rightarrow> min minx maxx \<le> x \<and> x \<le> max minx maxx \<and>
                       min miny maxy \<le> y \<and> y \<le> max miny maxy)"

definition cx :: "sample list \<Rightarrow> real \<Rightarrow> real \<Rightarrow> real \<Rightarrow> real \<Rightarrow> sample list" where
  "cx df xmin xmax ymin ymax = filter (\<lambda>s. intersects_box (geometry s) xmin ymin xmax ymax) df"

text \<open>\<open>App.plot_in_region\<close>, btbwgstool and btbgenietool.\<close>

definition plot_in_region ::
    "(nat \<Rightarrow> real \<times> real) \<Rightarrow> real \<times> real \<times> real \<times> real \<Rightarrow> app \<Rightarrow> app" where
  "plot_in_region noise plot_lims st =
     (case plot_lims of (xmin, xmax, ymin, ymax) \<Rightarrow>
        update noise (st\<lparr>sub := cx (cent st) xmin xmax ymin ymax\<rparr>))"

definition plot_in_region_genie :: "real \<times> real \<times> real \<times> real \<Rightarrow> app \<Rightarrow> app" where
  "plot_in_region_genie plot_limits st =
     (case plot_limits of (xmin, xmax, ymin, ymax) \<Rightarrow>
        st\<lparr>sub := cx (cent st) xmin xmax ymin ymax\<rparr>)"

section \<open>Plotting a cluster\<close>

text \<open>
  What \<open>plot_single_cluster\<close> puts on the axes: the title, the point layers drawn (the
  rows of each; marker styles and colour maps are left out) and the axis limits.
\<close>

record axes =
  ax_title :: string
  layers :: "sample list list"
  xlim :: "(real \<times> real) option"
  ylim :: "(real \<times> real) option"

definition total_bounds :: "sample list \<Rightarrow> real \<times> real \<times> real \<times> real" where
  "total_bounds df =
     (let ps = List.map_filter geometry df
      in (Min (set (map fst ps)), Min (set (map snd ps)),
          Max (set (map fst ps)), Max (set (map snd ps))))"

definition plot_single_cluster ::
    "sample list \<Rightarrow> string option \<Rightarrow> real option \<Rightarrow> string \<Rightarrow> axes" where
  "plot_single_cluster df col margin title' =
     (let df = filter (\<lambda>s. geometry s \<noteq> None) df
      in if length df = 0
         then \<lparr>ax_title = ''no locations available'', layers = [], xlim = None, ylim = None\<rparr>
         else
           (case total_bounds df of (minx, miny, maxx, maxy) \<Rightarrow>
              let df = filter (\<lambda>s. Species s \<in> set [''Bovine'', ''Badger'']) df;
                  layers = (if col = None \<or> col = Some ''''
                            then [df]
                            else [filter (\<lambda>s. Species s = ''Bovine'') df,
                                  filter (\<lambda>s. Species s = ''Badger'') df]);
                  margin = (case margin of None \<Rightarrow> (maxx - minx) * 0.3 | Some m \<Rightarrow> m)
              in \<lparr>ax_title = title', layers = layers,
                  xlim = Some (minx - margin, maxx + margin),
                  ylim = Some (miny - margin, maxy + margin)\<rparr>))"

text \<open>The coordinates of all samples of a frame that have a location, of any species.\<close>

definition located_xs :: "sample list \<Rightarrow> real set" where
  "located_xs df = fst ` set (List.map_filter geometry df)"

definition located_ys :: "sample list \<Rightarrow> real set" where
  "located_ys df = snd ` set (List.map_filter geometry df)"

text \<open>A sample with a location and no clade columns, for examples.\<close>

definition located :: "string \<Rightarrow> string \<Rightarrow> real \<Rightarrow> real \<Rightarrow> sample" where
  "located a sp x y =
     \<lparr>Animal_ID = a, HERD_NO = ''H'', Species = sp, County = ''Monaghan'',
      geometry = Some (x, y), labels = []\<rparr>"

section \<open>Movements\<close>

text \<open>
  A row of the frame that \<open>get_moves_bytag\<close> builds: the columns of the sample/move
  merge (\<open>Animal_ID\<close>, \<open>HERD_NO\<close>, \<open>move_to\<close>, \<open>move_date\<close>; \<open>data_type\<close>, \<open>breed\<close> and
  \<open>dob\<close> are carried along and read nowhere), the columns of \<open>lpis_cent\<close>
  (\<open>SPH_HERD_N\<close>, \<open>geometry\<close>) and the column \<open>P2\<close> that \<open>get_coords_data\<close> writes.
  \<open>None\<close> is pandas' missing value; a column a frame does not have reads \<open>None\<close> in
  every row. \<open>lpis_cent\<close> is a parcel table keyed by herd number: it has no \<open>Animal_ID\<close>
  column.
\<close>

type_synonym linestring = "point \<times> point"

record mrow =
  m_Animal_ID :: "string option"
  m_HERD_NO :: "string option"
  m_move_to :: "string option"
  m_move_date :: "int option"
  m_SPH_HERD_N :: "string option"
  m_geometry :: "point option"
  m_P2 :: "point option"

text \<open>
  \<open>df.merge(move_df, left_on='Animal_ID', right_on='tag', how='inner')\<close>: the matching
  pairs, in the order of the left rows.
\<close>

definition merge_inner :: "sample list \<Rightarrow> move list \<Rightarrow> (sample \<times> move) list" where
  "merge_inner df move_df =
     concat (map (\<lambda>s. map (Pair s) (filter (\<lambda>mv. tag mv = Animal_ID s) move_df)) df)"

definition merged :: "sample \<Rightarrow> move \<Rightarrow> parcel option \<Rightarrow> mrow" where
  "merged s mv p =
     \<lparr>m_Animal_ID = Some (Animal_ID s), m_HERD_NO = Some (HERD_NO s),
      m_move_to = Some (move_to mv), m_move_date = Some (move_date mv),
      m_SPH_HERD_N = map_option SPH_HERD_N p, m_geometry = map_option centroid p,
      m_P2 = None\<rparr>"

text \<open>
  \<open>t.merge(lpis_cent, left_on='move_to', right_on='SPH_HERD_N', how='left')\<close>: every
  left row once per matching parcel, and once with missing parcel columns when no parcel
  matches.
\<close>

definition merge_left :: "(sample \<times> move) list \<Rightarrow> parcel list \<Rightarrow> mrow list" where
  "merge_left t lpis_cent =
     concat (map (\<lambda>(s, mv).
       (case filter (\<lambda>p. SPH_HERD_N p = move_to mv) lpis_cent of
          [] \<Rightarrow> [merged s mv None]
        | ps \<Rightarrow> map (\<lambda>p. merged s mv (Some p)) ps)) t)"

text \<open>A row of \<open>lpis_cent\<close> as it stands in \<open>pd.concat([m, x])\<close>.\<close>

definition parcel_row :: "parcel \<Rightarrow> mrow" where
  "parcel_row p =
     \<lparr>m_Animal_ID = None, m_HERD_NO = None, m_move_to = None, m_move_date = None,
      m_SPH_HERD_N = Some (SPH_HERD_N p), m_geometry = Some (centroid p), m_P2 = None\<rparr>"

text \<open>
  \<open>sort_values\<close> on one key: stable, missing keys last. Sorting by
  \<open>['Animal_ID', 'move_date']\<close> is the stable sort by date followed by the stable sort
  by animal.
\<close>

definition sort_values :: "('r \<Rightarrow> 'k::linorder option) \<Rightarrow> 'r list \<Rightarrow> 'r list" where
  "sort_values key df =
     sort_key (\<lambda>r. the (key r)) (filter (\<lambda>r. key r \<noteq> None) df) @
     filter (\<lambda>r. key r = None) df"

text \<open>\<open>App.get_moves_bytag\<close>; \<open>None\<close> is the bare \<open>return\<close>.\<close>

definition get_moves_bytag ::
    "parcel list \<Rightarrow> sample list \<Rightarrow> move list \<Rightarrow> mrow list option" where
  "get_moves_bytag lpis_cent df move_df =
     (let t = merge_inner df move_df;
          m = merge_left t lpis_cent
      in if length m = 0 then None
         else
           let x = filter (\<lambda>p. SPH_HERD_N p \<in> set (map HERD_NO df)) lpis_cent;
               m = filter (\<lambda>r. m_Animal_ID r \<noteq> None) (m @ map parcel_row x);
               m = sort_values m_Animal_ID (sort_values m_move_date m)
           in Some m)"

text \<open>
  \<open>get_moves\<close> (btbgenietool), the same step for one animal; its globals \<open>meta\<close>,
  \<open>allmov\<close> and \<open>lpis_cent\<close> are arguments. The herd column of a move is called
  \<open>move_from\<close> there and is the field \<open>move_to\<close> of the move record here. The merge with
  \<open>lpis_cent\<close> is an inner one: a move without a parcel gives no row.
\<close>

definition get_moves ::
    "sample list \<Rightarrow> move list \<Rightarrow> parcel list \<Rightarrow> string \<Rightarrow> mrow list option" where
  "get_moves meta allmov lpis_cent tag' =
     (let df = filter (\<lambda>s. Animal_ID s = tag') meta;
          t = merge_inner df allmov;
          m = concat (map (\<lambda>(s, mv).
                map (\<lambda>p. merged s mv (Some p))
                  (filter (\<lambda>p. SPH_HERD_N p = move_to mv) lpis_cent)) t);
          m = sort_values m_move_date m
      in if length m = 0 then None
         else
           let x = filter (\<lambda>p. SPH_HERD_N p \<in> set (map HERD_NO df)) lpis_cent;
               m = m @ map parcel_row x
           in Some m)"

text \<open>
  \<open>LineString([p, q])\<close> needs two points; shapely raises on a missing one. The row-wise
  \<open>apply\<close> stops at the first row that raises.
\<close>

fun LineString :: "point option \<Rightarrow> point option \<Rightarrow> error + linestring" where
  "LineString (Some p) (Some q) = Inr (p, q)"
| "LineString _ _ = Inl TypeError"

fun apply_LineString :: "mrow list \<Rightarrow> error + linestring list" where
  "apply_LineString [] = Inr []"
| "apply_LineString (x # xs) =
     (case LineString (m_geometry x) (m_P2 x) of
        Inl e \<Rightarrow> Inl e
      | Inr l \<Rightarrow> (case apply_LineString xs of Inl e \<Rightarrow> Inl e | Inr ls \<Rightarrow> Inr (l # ls)))"

text \<open>
  \<open>get_coords_data\<close> assigns the column \<open>P2\<close> of the frame it is given, so the frame is
  returned with the result: \<open>shift(-1)\<close> moves the geometry column up by one row and
  leaves the last row missing, \<open>df[:-1]\<close> drops the last row.
\<close>

definition get_coords_data :: "mrow list \<Rightarrow> mrow list \<times> (error + linestring list)" where
  "get_coords_data df =
     (let P2 = tl (map m_geometry df) @ [None];
          df = map (\<lambda>(r, p). r\<lparr>m_P2 := p\<rparr>) (zip df P2);
          coords = apply_LineString (butlast df)
      in (df, coords))"

text \<open>
  \<open>groupby(key)\<close>: one group per key value in ascending key order, rows in frame order;
  rows with a missing key are in no group.
\<close>

definition groupby :: "('r \<Rightarrow> 'k::linorder option) \<Rightarrow> 'r list \<Rightarrow> ('k \<times> 'r list) list" where
  "groupby key df =
     map (\<lambda>k. (k, filter (\<lambda>r. key r = Some k) df)) (sort (unique (List.map_filter key df)))"

text \<open>
  Modelled from the spec: \<open>plotting.random_colors\<close> is not among the sources. It is taken
  to return a palette of \<open>n\<close> colours, as C9 reads the call \<open>random_colors(30, seed=12)\<close>
  ("a fixed palette of exactly 30 colors"). Which colours they are is left open:
  \<open>Drawn seed k\<close> stands for colour number \<open>k\<close> of the palette drawn with \<open>seed\<close>.
\<close>

datatype color = Drawn nat nat

definition random_colors :: "nat \<Rightarrow> nat \<Rightarrow> color list" where
  "random_colors n seed = map (Drawn seed) [0..<n]"

text \<open>
  \<open>App.plot_moves\<close>: what is drawn for one animal (the colour, the lines, the parcels
  moved to), the loop over the groups with its counter \<open>i\<close>, and the method. The result
  is the list of what was drawn, or the exception that ended the call.
\<close>

record trace =
  color :: color
  mlines :: "linestring list"
  moved :: "parcel list"

fun plot_groups ::
    "color list \<Rightarrow> parcel list \<Rightarrow> nat \<Rightarrow> (string \<times> mrow list) list \<Rightarrow> error + trace list" where
  "plot_groups colors lpis_cent i [] = Inr []"
| "plot_groups colors lpis_cent i ((tag', t) # gs) =
     (let moved = filter (\<lambda>p. Some (SPH_HERD_N p) \<in> set (map m_move_to t)) lpis_cent
      in case snd (get_coords_data t) of
           Inl e \<Rightarrow> Inl e
         | Inr coords \<Rightarrow>
             if length coords > 0
             then if i < length colors
                  then (case plot_groups colors lpis_cent (i + 1) gs of
                          Inl e \<Rightarrow> Inl e
                        | Inr ds \<Rightarrow>
                            Inr (\<lparr>color = colors ! i, mlines = coords, moved = moved\<rparr> # ds))
                  else Inl IndexError
             else plot_groups colors lpis_cent i gs)"

definition plot_moves :: "parcel list \<Rightarrow> mrow list option \<Rightarrow> error + trace list" where
  "plot_moves lpis_cent moves =
     (let colors = random_colors 30 12
      in case moves of
           None \<Rightarrow> Inr []
         | Some moves \<Rightarrow>
             let moves = filter (\<lambda>r. m_geometry r \<noteq> None) moves
             in plot_groups colors lpis_cent 0 (groupby m_Animal_ID moves))"

text \<open>Rows for examples: a sample of a herd, a resolved stop of an animal, two stops.\<close>

definition herd_sample :: "string \<Rightarrow> string \<Rightarrow> sample" where
  "herd_sample a h =
     \<lparr>Animal_ID = a, HERD_NO = h, Species = ''Bovine'', County = ''Monaghan'',
      geometry = Some (0, 0), labels = []\<rparr>"

definition stop :: "string \<Rightarrow> string \<Rightarrow> int \<Rightarrow> point option \<Rightarrow> mrow" where
  "stop a h d g =
     \<lparr>m_Animal_ID = Some a, m_HERD_NO = Some ''H0'', m_move_to = Some h, m_move_date = Some d,
      m_SPH_HERD_N = Some h, m_geometry = g, m_P2 = None\<rparr>"

definition two_stops :: "nat \<Rightarrow> mrow list" where
  "two_stops i =
     [stop (str_nat i) ''H1'' 1 (Some (1, 1)), stop (str_nat i) ''H2'' 2 (Some (2, 2))]"


section \<open>Grid binning\<close>








record 'k hexmap =
  cells :: "(nat \<times> string \<times> 'k) list"
  dots :: "(sample \<times> 'k) list"







section \<open>Lemmas about the model\<close>

lemma set_unique: "set (unique xs) = set xs"
  by (induction xs rule: unique.induct) auto

lemma distinct_unique: "distinct (unique xs)"
  by (induction xs rule: unique.induct) (auto simp: set_unique)

lemma sum_list_insort_key:
  fixes g :: "'a \<Rightarrow> nat"
  shows "sum_list (map g (insort_key f x xs)) = g x + sum_list (map g xs)"
  by (induction xs) auto

lemma sum_list_sort_key:
  fixes g :: "'a \<Rightarrow> nat"
  shows "sum_list (map g (sort_key f xs)) = sum_list (map g xs)"
  by (induction xs) (auto simp: sum_list_insort_key)

lemma count_list_filter:
  "count_list (filter P xs) v = (if P v then count_list xs v else 0)"
  by (induction xs) auto

lemma sum_count_filter:
  "(\<Sum>v\<in>{v \<in> set xs. P v}. count_list xs v) = length (filter P xs)"
proof -
  have "(\<Sum>v\<in>set (filter P xs). count_list (filter P xs) v) = length (filter P xs)"
    by (rule sum_count_set) auto
  moreover have "(\<Sum>v\<in>set (filter P xs). count_list (filter P xs) v) =
      (\<Sum>v\<in>set (filter P xs). count_list xs v)"
    by (rule sum.cong) (auto simp: count_list_filter)
  moreover have "set (filter P xs) = {v \<in> set xs. P v}"
    by auto
  ultimately show ?thesis by simp
qed

lemma value_counts_filter_sum:
  "sum_list (map snd (filter (\<lambda>(v, c). P c) (value_counts xs))) =
     length (filter (\<lambda>x. P (count_list xs x)) xs)"
proof -
  let ?Q = "\<lambda>v. P (count_list xs v)"
  have "filter (\<lambda>(v, c). P c) (map (\<lambda>v. (v, count_list xs v)) (unique xs)) =
      map (\<lambda>v. (v, count_list xs v)) (filter ?Q (unique xs))"
    by (simp add: filter_map comp_def)
  then have "sum_list (map snd (filter (\<lambda>(v, c). P c) (value_counts xs))) =
      sum_list (map (count_list xs) (filter ?Q (unique xs)))"
    by (simp add: value_counts_def filter_sort sum_list_sort_key comp_def)
  also have "\<dots> = (\<Sum>v\<in>set (filter ?Q (unique xs)). count_list xs v)"
    by (rule sum_list_distinct_conv_sum_set) (simp add: distinct_unique)
  also have "set (filter ?Q (unique xs)) = {v \<in> set xs. ?Q v}"
    by (auto simp: set_unique)
  also have "(\<Sum>v\<in>{v \<in> set xs. ?Q v}. count_list xs v) = length (filter ?Q xs)"
    by (rule sum_count_filter)
  finally show ?thesis .
qed

lemma set_value_counts:
  "set (value_counts xs) = {(v, count_list xs v) |v. v \<in> set xs}"
  by (auto simp: value_counts_def set_unique)

lemma length_filter_count_gt1:
  "length (filter (\<lambda>x. 1 < count_list xs x) xs) =
     length xs - length (filter (\<lambda>x. count_list xs x = 1) xs)"
proof -
  have "filter (\<lambda>x. \<not> 1 < count_list xs x) xs = filter (\<lambda>x. count_list xs x = 1) xs"
  proof (rule filter_cong[OF refl])
    fix x assume "x \<in> set xs"
    then have "0 < count_list xs x" by (metis count_list_0_iff gr0I)
    then show "(\<not> 1 < count_list xs x) = (count_list xs x = 1)" by auto
  qed
  moreover have "length (filter (\<lambda>x. 1 < count_list xs x) xs) +
      length (filter (\<lambda>x. \<not> 1 < count_list xs x) xs) = length xs"
    by (rule sum_length_filter_compl)
  ultimately show ?thesis by simp
qed

lemma sorted_unique: "sorted xs \<Longrightarrow> sorted (unique xs)"
proof (induction xs rule: unique.induct)
  case 1
  then show ?case by simp
next
  case (2 x xs)
  have "sorted (filter (\<lambda>y. y \<noteq> x) xs)"
    using "2.prems" sorted_filter[of "\<lambda>x. x" xs] by simp
  then have "sorted (unique (filter (\<lambda>y. y \<noteq> x) xs))" by (rule "2.IH")
  moreover have "\<forall>y\<in>set (unique (filter (\<lambda>y. y \<noteq> x) xs)). x \<le> y"
    using "2.prems" by (auto simp: set_unique)
  ultimately show ?case by simp
qed

lemma set_get_cluster_samples:
  "set (get_cluster_samples df col n) =
     {s \<in> set df. column col s \<noteq> ''-1'' \<and>
        n \<le> int (count_list (map (column col) df) (column col s))}"
  unfolding get_cluster_samples_def Let_def
  by (auto simp: set_value_counts image_iff)

lemma cluster_labels:
  "unique (map (column col) (get_cluster_samples df col n)) =
     sort (filter (\<lambda>l. l \<noteq> ''-1'' \<and> n \<le> int (count_list (map (column col) df) l))
       (unique (map (column col) df)))"
proof (rule sorted_distinct_set_unique)
  show "sorted (unique (map (column col) (get_cluster_samples df col n)))"
    by (rule sorted_unique) (simp add: get_cluster_samples_def Let_def)
  show "set (unique (map (column col) (get_cluster_samples df col n))) =
      set (sort (filter (\<lambda>l. l \<noteq> ''-1'' \<and> n \<le> int (count_list (map (column col) df) l))
       (unique (map (column col) df))))"
    by (auto simp: set_unique set_get_cluster_samples)
qed (simp_all add: distinct_unique)

lemma sorted_update_clades: "sorted (map (\<lambda>(l, k). - int k) (update_clades level df))"
  unfolding update_clades_def Let_def value_counts_def
  by (rule sorted_filter) (rule sorted_sort_key)

lemma update_member:
  "s \<in> set (sub st) \<Longrightarrow> \<exists>g. s\<lparr>geometry := g\<rparr> \<in> set (sub (update noise st))"
proof (cases "jitterb st")
  case False
  assume "s \<in> set (sub st)"
  then have "s\<lparr>geometry := geometry s\<rparr> \<in> set (sub (update noise st))"
    using False by (simp add: update_def)
  then show ?thesis by blast
next
  case True
  assume "s \<in> set (sub st)"
  then obtain i where i: "i < length (sub st)" "sub st ! i = s"
    by (auto simp: in_set_conv_nth)
  then have "(i, s) \<in> set (enumerate 0 (sub st))"
    by (auto simp: in_set_enumerate_eq)
  then have "s\<lparr>geometry := jitter_points s (noise i)\<rparr> \<in> set (sub (update noise st))"
    using True by (force simp: update_def)
  then show ?thesis by blast
qed

lemma cx_iff:
  "xmin \<le> xmax \<Longrightarrow> ymin \<le> ymax \<Longrightarrow>
   s \<in> set (cx df xmin xmax ymin ymax) \<longleftrightarrow>
     s \<in> set df \<and>
     (\<exists>x y. geometry s = Some (x, y) \<and> xmin \<le> x \<and> x \<le> xmax \<and> ymin \<le> y \<and> y \<le> ymax)"
  by (auto simp: cx_def intersects_box_def split: option.splits)

lemma plotted_species:
  "set (concat (layers (plot_single_cluster df col margin t))) =
     {s \<in> set df. geometry s \<noteq> None \<and> (Species s = ''Bovine'' \<or> Species s = ''Badger'')}"
proof (cases "filter (\<lambda>s. geometry s \<noteq> None) df = []")
  case True
  then have "\<forall>s\<in>set df. geometry s = None"
    unfolding filter_empty_conv by blast
  then show ?thesis using True by (auto simp: plot_single_cluster_def)
next
  case False
  then show ?thesis
    by (auto simp: plot_single_cluster_def Let_def split: prod.splits)
qed

lemma map_filter_located:
  "List.map_filter geometry (filter (\<lambda>s. geometry s \<noteq> None) df) = List.map_filter geometry df"
  by (simp add: map_filter_def)

lemma extent_all_species:
  assumes "s \<in> set df" and "geometry s \<noteq> None"
  shows "xlim (plot_single_cluster df col margin t) =
      (let m = (case margin of
                  None \<Rightarrow> (Max (located_xs df) - Min (located_xs df)) * 0.3
                | Some m \<Rightarrow> m)
       in Some (Min (located_xs df) - m, Max (located_xs df) + m))"
    and "ylim (plot_single_cluster df col margin t) =
      (let m = (case margin of
                  None \<Rightarrow> (Max (located_xs df) - Min (located_xs df)) * 0.3
                | Some m \<Rightarrow> m)
       in Some (Min (located_ys df) - m, Max (located_ys df) + m))"
proof -
  have ne: "filter (\<lambda>s. geometry s \<noteq> None) df \<noteq> []"
    using assms unfolding filter_empty_conv by blast
  show "xlim (plot_single_cluster df col margin t) =
      (let m = (case margin of
                  None \<Rightarrow> (Max (located_xs df) - Min (located_xs df)) * 0.3
                | Some m \<Rightarrow> m)
       in Some (Min (located_xs df) - m, Max (located_xs df) + m))"
    unfolding plot_single_cluster_def Let_def total_bounds_def map_filter_located located_xs_def
    using ne by (simp split: prod.splits)
  show "ylim (plot_single_cluster df col margin t) =
      (let m = (case margin of
                  None \<Rightarrow> (Max (located_xs df) - Min (located_xs df)) * 0.3
                | Some m \<Rightarrow> m)
       in Some (Min (located_ys df) - m, Max (located_ys df) + m))"
    unfolding plot_single_cluster_def Let_def total_bounds_def map_filter_located located_xs_def
      located_ys_def
    using ne by (simp split: prod.splits)
qed

lemma coords_nil: "snd (get_coords_data []) = Inr []"
  by (simp add: get_coords_data_def)

lemma coords_single: "snd (get_coords_data [r]) = Inr []"
  by (simp add: get_coords_data_def)

lemma coords_step:
  "snd (get_coords_data (r # r' # rs)) =
     (case LineString (m_geometry r) (m_geometry r') of
        Inl e \<Rightarrow> Inl e
      | Inr l \<Rightarrow> (case snd (get_coords_data (r' # rs)) of
                    Inl e \<Rightarrow> Inl e | Inr ls \<Rightarrow> Inr (l # ls)))"
  by (simp add: get_coords_data_def Let_def split: sum.splits)

lemma coords_located:
  "\<forall>r\<in>set df. m_geometry r \<noteq> None \<Longrightarrow>
   snd (get_coords_data df) =
     Inr (zip (map (\<lambda>r. the (m_geometry r)) df) (tl (map (\<lambda>r. the (m_geometry r)) df)))"
proof (induction df rule: induct_list012)
  case 1
  show ?case by (rule coords_nil[simplified, THEN trans]) simp
next
  case (2 r)
  show ?case by (simp add: coords_single)
next
  case (3 r r' rs)
  then show ?case by (auto simp: coords_step)
qed





lemma coords_length:
  assumes "\<forall>r\<in>set t. m_geometry r \<noteq> None"
  shows "\<exists>cs. snd (get_coords_data t) = Inr cs \<and> length cs = length t - 1"
  using coords_located[OF assms] by simp

lemma plot_groups_located:
  assumes "\<forall>g\<in>set gs. \<forall>r\<in>set (snd g). m_geometry r \<noteq> None" and "i \<le> length colors"
  shows "case plot_groups colors lpis i gs of
           Inl e \<Rightarrow> e = IndexError \<and> length colors < i + length (filter (\<lambda>g. 2 \<le> length (snd g)) gs)
         | Inr ds \<Rightarrow> i + length (filter (\<lambda>g. 2 \<le> length (snd g)) gs) \<le> length colors \<and>
                     map color ds = take (length (filter (\<lambda>g. 2 \<le> length (snd g)) gs)) (drop i colors)"
  using assms
proof (induction gs arbitrary: i)
  case Nil
  then show ?case by simp
next
  case (Cons g gs)
  obtain tg t where g: "g = (tg, t)" by (cases g)
  from Cons.prems g have "\<forall>r\<in>set t. m_geometry r \<noteq> None" by simp
  then obtain cs where cs: "snd (get_coords_data t) = Inr cs" "length cs = length t - 1"
    using coords_length by blast
  from Cons.prems have rest: "\<forall>g\<in>set gs. \<forall>r\<in>set (snd g). m_geometry r \<noteq> None" by simp
  show ?case
  proof (cases "2 \<le> length t")
    case False
    then show ?thesis
      using Cons.IH[OF rest Cons.prems(2)] cs g by (auto simp: Let_def split: sum.splits)
  next
    case True
    show ?thesis
    proof (cases "i < length colors")
      case False
      then show ?thesis using True cs g Cons.prems(2) by (auto simp: Let_def split: sum.splits)
    next
      case lt: True
      have "take (Suc n) (drop i colors) = colors ! i # take n (drop (Suc i) colors)" for n
        using lt by (simp add: Cons_nth_drop_Suc[symmetric])
      then show ?thesis
        using Cons.IH[OF rest, of "Suc i"] True cs g lt
        by (auto simp: Let_def split: sum.splits)
    qed
  qed
qed

lemma set_groupby_keys:
  "set (sort (unique (List.map_filter key df))) = {k. \<exists>r\<in>set df. key r = Some k}"
  by (force simp: set_unique map_filter_def image_iff)

lemma groupby_count:
  "length (filter (\<lambda>g. 2 \<le> length (snd g)) (groupby key df)) =
     card {k. 2 \<le> length (filter (\<lambda>r. key r = Some k) df)}"
proof -
  let ?ks = "sort (unique (List.map_filter key df))"
  let ?P = "\<lambda>k. 2 \<le> length (filter (\<lambda>r. key r = Some k) df)"
  have d: "distinct ?ks" by (simp add: distinct_unique)
  have "length (filter (\<lambda>g. 2 \<le> length (snd g)) (groupby key df)) = length (filter ?P ?ks)"
    by (simp add: groupby_def filter_map comp_def)
  also have "\<dots> = card ({k. ?P k} \<inter> set ?ks)"
    using d by (simp add: distinct_length_filter Int_commute)
  also have "{k. ?P k} \<inter> set ?ks = {k. ?P k}"
  proof -
    have "k \<in> set ?ks" if "?P k" for k
    proof -
      from that have "filter (\<lambda>r. key r = Some k) df \<noteq> []" by auto
      then obtain r where "r \<in> set df" "key r = Some k"
        by (auto simp: filter_empty_conv)
      then show ?thesis unfolding set_groupby_keys by blast
    qed
    then show ?thesis by blast
  qed
  finally show ?thesis .
qed

lemma groupby_rows: "g \<in> set (groupby key df) \<Longrightarrow> set (snd g) \<subseteq> set df"
  by (auto simp: groupby_def)

lemma plot_moves_index_error:
  "plot_moves lpis_cent (Some moves) = Inl IndexError \<longleftrightarrow>
     30 < card {a. 2 \<le> length (filter (\<lambda>r. m_Animal_ID r = Some a \<and> m_geometry r \<noteq> None) moves)}"
proof -
  let ?M = "filter (\<lambda>r. m_geometry r \<noteq> None) moves"
  let ?gs = "groupby m_Animal_ID ?M"
  have loc: "\<forall>g\<in>set ?gs. \<forall>r\<in>set (snd g). m_geometry r \<noteq> None"
    using groupby_rows[of _ m_Animal_ID ?M] by fastforce
  have n: "length (filter (\<lambda>g. 2 \<le> length (snd g)) ?gs) =
      card {a. 2 \<le> length (filter (\<lambda>r. m_Animal_ID r = Some a \<and> m_geometry r \<noteq> None) moves)}"
    unfolding groupby_count by (simp add: conj_commute)
  have c: "length (random_colors 30 12) = 30" by (simp add: random_colors_def)
  show ?thesis
    using plot_groups_located[OF loc, where colors="random_colors 30 12" and lpis=lpis_cent and i=0]
    unfolding n c by (auto simp: plot_moves_def Let_def split: sum.splits)
qed















section \<open>Claims\<close>

text \<open>
  C4 (as the code has it). \<open>update_clades\<close> lists every label of the level column that
  occurs more than once, the label \<open>-1\<close> included like any other, each with its number of
  occurrences; labels that occur once are left out. So the counts sum to the number of
  samples minus the number of samples whose label occurs exactly once.
\<close>

theorem update_clades_counts:
  "set (update_clades level df) =
     {(l, count_list (map (column level) df) l) |l.
        l \<in> set (map (column level) df) \<and> 1 < count_list (map (column level) df) l}
   \<and> sum_list (map snd (update_clades level df)) =
     length df -
       length (filter (\<lambda>s. count_list (map (column level) df) (column level s) = 1) df)"
proof -
  let ?L = "map (column level) df"
  have a: "set (update_clades level df) =
      {(l, count_list ?L l) |l. l \<in> set ?L \<and> 1 < count_list ?L l}"
    unfolding update_clades_def Let_def set_filter set_value_counts by auto
  have "sum_list (map snd (update_clades level df)) =
      length (filter (\<lambda>x. 1 < count_list ?L x) ?L)"
    unfolding update_clades_def Let_def by (rule value_counts_filter_sum)
  also have "\<dots> = length ?L - length (filter (\<lambda>x. count_list ?L x = 1) ?L)"
    by (rule length_filter_count_gt1)
  also have "length (filter (\<lambda>x. count_list ?L x = 1) ?L) =
      length (filter (\<lambda>s. count_list ?L (column level s) = 1) df)"
    by (simp add: filter_map comp_def)
  finally show ?thesis using a by simp
qed

theorem update_clades_counts_witness:
  "sum_list (map snd (update_clades ''snp3'' [labelled ''a'' ''snp3'' ''A'',
      labelled ''b'' ''snp3'' ''-1'', labelled ''c'' ''snp3'' ''A'', labelled ''d'' ''snp3'' ''-1'',
      labelled ''e'' ''snp3'' ''B''])) = 5 - 1"
  using update_clades_counts [of "''snp3''" "[labelled ''a'' ''snp3'' ''A'',
      labelled ''b'' ''snp3'' ''-1'', labelled ''c'' ''snp3'' ''A'', labelled ''d'' ''snp3'' ''-1'',
      labelled ''e'' ''snp3'' ''B'']"]
  by (simp add: labelled_def column_def)

text \<open>
  C4 as stated fails: with two samples that both carry the label \<open>-1\<close>, the label is
  listed with count 2, and the counts sum to 2, not to the 0 samples that remain when the
  unclustered ones are taken away.
\<close>

theorem update_clades_sentinel_counterexample:
  "update_clades ''snp3'' [labelled ''a'' ''snp3'' ''-1'', labelled ''b'' ''snp3'' ''-1''] =
     [(''-1'', 2)]
   \<and> sum_list (map snd
       (update_clades ''snp3'' [labelled ''a'' ''snp3'' ''-1'', labelled ''b'' ''snp3'' ''-1''])) = 2
   \<and> length [labelled ''a'' ''snp3'' ''-1'', labelled ''b'' ''snp3'' ''-1''] -
       length (filter (unclustered ''snp3'')
         [labelled ''a'' ''snp3'' ''-1'', labelled ''b'' ''snp3'' ''-1'']) = 0"
  by (simp add: update_clades_def value_counts_def labelled_def column_def unclustered_def
      sentinel_def)

text \<open>
  C5 (as the code has it). \<open>get_cluster_samples\<close> returns samples, not labels: those whose
  label is not \<open>-1\<close> and occurs at least \<open>n\<close> times, sorted by label. The labels of its
  result, in order of appearance, are therefore exactly the labels other than \<open>-1\<close> with
  count at least \<open>n\<close> in ascending label order, whatever their counts. The clade list of
  \<open>update_clades\<close> is in descending order of count.
\<close>

theorem cluster_members_by_label:
  "unique (map (column col) (get_cluster_samples df col n)) =
     sort (filter (\<lambda>l. l \<noteq> ''-1'' \<and> n \<le> int (count_list (map (column col) df) l))
       (unique (map (column col) df)))
   \<and> set (get_cluster_samples df col n) =
     {s \<in> set df. column col s \<noteq> ''-1'' \<and>
        n \<le> int (count_list (map (column col) df) (column col s))}
   \<and> sorted (map (column col) (get_cluster_samples df col n))
   \<and> sorted (map (\<lambda>(l, k). - int k) (update_clades col df))"
proof -
  have "sorted (map (column col) (get_cluster_samples df col n))"
    by (simp add: get_cluster_samples_def Let_def)
  then show ?thesis
    using cluster_labels set_get_cluster_samples sorted_update_clades by blast
qed

text \<open>
  The example of the specification: five samples with \<open>snp3\<close> labels A, A, B, -1, B and
  \<open>n = 2\<close> give the labels A, B.
\<close>

theorem cluster_members_by_label_witness:
  "unique (map (column ''snp3'') (get_cluster_samples [labelled ''a'' ''snp3'' ''A'',
      labelled ''b'' ''snp3'' ''A'', labelled ''c'' ''snp3'' ''B'', labelled ''d'' ''snp3'' ''-1'',
      labelled ''e'' ''snp3'' ''B''] ''snp3'' 2)) = [''A'', ''B'']"
  using cluster_members_by_label [of "''snp3''" "[labelled ''a'' ''snp3'' ''A'',
      labelled ''b'' ''snp3'' ''A'', labelled ''c'' ''snp3'' ''B'', labelled ''d'' ''snp3'' ''-1'',
      labelled ''e'' ''snp3'' ''B'']" 2]
  by (simp add: labelled_def column_def)

text \<open>
  C5 as stated fails: with labels B, B, B, A, A and \<open>n = 2\<close> the code yields A before B,
  although B has the larger count; ordering by descending count gives B, A.
\<close>

theorem cluster_members_order_counterexample:
  "unique (map (column ''snp3'') (get_cluster_samples [labelled ''a'' ''snp3'' ''B'',
      labelled ''b'' ''snp3'' ''B'', labelled ''c'' ''snp3'' ''B'', labelled ''d'' ''snp3'' ''A'',
      labelled ''e'' ''snp3'' ''A''] ''snp3'' 2)) = [''A'', ''B'']
   \<and> clusterMembers_spec (map (column ''snp3'') [labelled ''a'' ''snp3'' ''B'',
      labelled ''b'' ''snp3'' ''B'', labelled ''c'' ''snp3'' ''B'', labelled ''d'' ''snp3'' ''A'',
      labelled ''e'' ''snp3'' ''A'']) 2 = [''B'', ''A'']"
  by code_simp

text \<open>
  C6 (as the code has it). With no clade selected, \<open>plot_selected_clade\<close> and
  \<open>plot_selected\<close> return at once: no error, and the session state is left as it was, so
  the subset that was active stays active.
\<close>

theorem empty_clade_selection_keeps_state:
  "plot_selected_clade noise level [] st = st \<and> plot_selected level [] st = st"
  by (simp add: plot_selected_clade_def plot_selected_def)

text \<open>
  C6 as stated fails: with one sample active and an empty selection, the active subset is
  still that sample, not the empty subset.
\<close>

theorem empty_clade_selection_counterexample:
  "sub (plot_selected_clade still ''snp3'' []
      \<lparr>cent = [labelled ''a'' ''snp3'' ''A'', labelled ''b'' ''snp3'' ''B''],
       sub = [labelled ''a'' ''snp3'' ''A''], title = None, lims = None, jitterb = False\<rparr>) =
     [labelled ''a'' ''snp3'' ''A'']
   \<and> sub (plot_selected_clade still ''snp3'' []
      \<lparr>cent = [labelled ''a'' ''snp3'' ''A'', labelled ''b'' ''snp3'' ''B''],
       sub = [labelled ''a'' ''snp3'' ''A''], title = None, lims = None, jitterb = False\<rparr>) \<noteq> []"
  by (simp add: plot_selected_clade_def)

text \<open>
  C7. Region selection keeps a sample whose point lies exactly on an edge of the visible
  rectangle (at \<open>xmin\<close> or \<open>xmax\<close> with \<open>y\<close> within its bounds, or at \<open>ymin\<close> or \<open>ymax\<close>
  with \<open>x\<close> within its bounds): it is a row of \<open>cent.cx[xmin:xmax, ymin:ymax]\<close>, hence of
  the new active subset in both applications. In btbwgstool the redraw that follows may
  jitter the subset's points, which moves the row's geometry and keeps the row.
\<close>

theorem region_inclusive:
  assumes "s \<in> set (cent st)" and "geometry s = Some (x, y)"
    and "xmin < xmax" and "ymin < ymax"
    and "(x = xmin \<or> x = xmax) \<and> ymin \<le> y \<and> y \<le> ymax \<or>
         (y = ymin \<or> y = ymax) \<and> xmin \<le> x \<and> x \<le> xmax"
  shows "s \<in> set (cx (cent st) xmin xmax ymin ymax)
    \<and> s \<in> set (sub (plot_in_region_genie (xmin, xmax, ymin, ymax) st))
    \<and> (\<exists>g. s\<lparr>geometry := g\<rparr> \<in> set (sub (plot_in_region noise (xmin, xmax, ymin, ymax) st)))
    \<and> (\<not> jitterb st \<longrightarrow> s \<in> set (sub (plot_in_region noise (xmin, xmax, ymin, ymax) st)))"
proof -
  have a: "s \<in> set (cx (cent st) xmin xmax ymin ymax)"
    using assms by (subst cx_iff) auto
  have b: "\<exists>g. s\<lparr>geometry := g\<rparr> \<in> set (sub (plot_in_region noise (xmin, xmax, ymin, ymax) st))"
    unfolding plot_in_region_def prod.case
    by (rule update_member) (simp add: a)
  show ?thesis using a b by (simp add: plot_in_region_def plot_in_region_genie_def update_def)
qed

theorem region_inclusive_witness:
  "located ''a'' ''Bovine'' 0 5 \<in> set (cx [located ''a'' ''Bovine'' 0 5, located ''b'' ''Bovine'' 11 5] 0 10 0 10)
   \<and> located ''a'' ''Bovine'' 0 5 \<in> set (sub (plot_in_region still (0, 10, 0, 10)
       \<lparr>cent = [located ''a'' ''Bovine'' 0 5, located ''b'' ''Bovine'' 11 5], sub = [],
        title = None, lims = None, jitterb = False\<rparr>))
   \<and> located ''b'' ''Bovine'' 11 5 \<notin> set (cx [located ''a'' ''Bovine'' 0 5, located ''b'' ''Bovine'' 11 5] 0 10 0 10)"
  using region_inclusive [of "located ''a'' ''Bovine'' 0 5"
      "\<lparr>cent = [located ''a'' ''Bovine'' 0 5, located ''b'' ''Bovine'' 11 5], sub = [],
        title = None, lims = None, jitterb = False\<rparr>" 0 5 0 10 0 10 still]
  by (simp add: located_def cx_def intersects_box_def)

text \<open>
  C10. \<open>plot_single_cluster\<close> draws exactly the located samples whose species is Bovine
  or Badger; a located sample of another species is in no layer. When some sample has a
  location, the axis limits are the bounds of all located samples, of every species,
  widened by the margin. (The function only reads its argument, so the subset itself
  keeps every row.)
\<close>

theorem plot_single_cluster_species:
  assumes "s \<in> set df" and "geometry s \<noteq> None"
  shows "set (concat (layers (plot_single_cluster df col margin t))) =
      {s \<in> set df. geometry s \<noteq> None \<and> (Species s = ''Bovine'' \<or> Species s = ''Badger'')}
    \<and> (Species s \<noteq> ''Bovine'' \<and> Species s \<noteq> ''Badger'' \<longrightarrow>
         s \<notin> set (concat (layers (plot_single_cluster df col margin t))))
    \<and> xlim (plot_single_cluster df col margin t) =
      (let m = (case margin of
                  None \<Rightarrow> (Max (located_xs df) - Min (located_xs df)) * 0.3
                | Some m \<Rightarrow> m)
       in Some (Min (located_xs df) - m, Max (located_xs df) + m))
    \<and> ylim (plot_single_cluster df col margin t) =
      (let m = (case margin of
                  None \<Rightarrow> (Max (located_xs df) - Min (located_xs df)) * 0.3
                | Some m \<Rightarrow> m)
       in Some (Min (located_ys df) - m, Max (located_ys df) + m))"
  using extent_all_species[OF assms, of col margin t] plotted_species[of df col margin t]
  by simp

text \<open>
  A cow at (0, 0) and a deer at (100, 50): only the cow is drawn, and the limits reach
  from -30 to 130 and from -30 to 80, which the deer's position sets.
\<close>

theorem plot_single_cluster_species_witness:
  "layers (plot_single_cluster [located ''a'' ''Bovine'' 0 0, located ''b'' ''Deer'' 100 50]
      None None ''t'') = [[located ''a'' ''Bovine'' 0 0]]
   \<and> located ''b'' ''Deer'' 100 50 \<notin> set (concat (layers (plot_single_cluster
      [located ''a'' ''Bovine'' 0 0, located ''b'' ''Deer'' 100 50] None None ''t'')))
   \<and> xlim (plot_single_cluster [located ''a'' ''Bovine'' 0 0, located ''b'' ''Deer'' 100 50]
      None None ''t'') = Some (-30, 130)
   \<and> ylim (plot_single_cluster [located ''a'' ''Bovine'' 0 0, located ''b'' ''Deer'' 100 50]
      None None ''t'') = Some (-30, 80)"
  using plot_single_cluster_species [of "located ''b'' ''Deer'' 100 50"
      "[located ''a'' ''Bovine'' 0 0, located ''b'' ''Deer'' 100 50]" None None "''t''",
      THEN conjunct2]
  by (simp add: plot_single_cluster_def total_bounds_def located_def map_filter_def
      located_xs_def located_ys_def)

text \<open>
  C3. Let \<open>w\<close> be the rows of an animal's trace that have a geometry, as \<open>plot_moves\<close>
  hands them to \<open>get_coords_data\<close>, and \<open>k\<close> their number. The call raises nothing and
  returns \<open>k - 1\<close> line segments when \<open>k\<close> is at least 2, segment \<open>i\<close> joining waypoint
  \<open>i\<close> to waypoint \<open>i + 1\<close>, and no segment when \<open>k\<close> is below 2.
\<close>

theorem segments_of_waypoints:
  "\<exists>segs. snd (get_coords_data (filter (\<lambda>r. m_geometry r \<noteq> None) t)) = Inr segs
     \<and> (2 \<le> length (filter (\<lambda>r. m_geometry r \<noteq> None) t) \<longrightarrow>
          length segs = length (filter (\<lambda>r. m_geometry r \<noteq> None) t) - 1)
     \<and> (length (filter (\<lambda>r. m_geometry r \<noteq> None) t) < 2 \<longrightarrow> segs = [])
     \<and> (\<forall>i. Suc i < length (filter (\<lambda>r. m_geometry r \<noteq> None) t) \<longrightarrow>
          segs ! i = (the (m_geometry (filter (\<lambda>r. m_geometry r \<noteq> None) t ! i)),
                      the (m_geometry (filter (\<lambda>r. m_geometry r \<noteq> None) t ! Suc i))))"
proof -
  let ?w = "filter (\<lambda>r. m_geometry r \<noteq> None) t"
  let ?ps = "map (\<lambda>r. the (m_geometry r)) ?w"
  have "\<forall>r\<in>set ?w. m_geometry r \<noteq> None" by simp
  then have s: "snd (get_coords_data ?w) = Inr (zip ?ps (tl ?ps))"
    by (rule coords_located)
  have "length (zip ?ps (tl ?ps)) = length ?w - 1" by simp
  moreover have "zip ?ps (tl ?ps) ! i = (the (m_geometry (?w ! i)), the (m_geometry (?w ! Suc i)))"
    if "Suc i < length ?w" for i
    using that by (simp add: nth_tl)
  moreover have "zip ?ps (tl ?ps) = []" if "length ?w < 2"
    using that by (cases ?w) auto
  ultimately show ?thesis using s by blast
qed

theorem segments_of_waypoints_witness:
  "snd (get_coords_data (filter (\<lambda>r. m_geometry r \<noteq> None)
      [stop ''a'' ''H1'' 1 (Some (1, 1)), stop ''a'' ''H2'' 3 None,
       stop ''a'' ''H3'' 5 (Some (3, 3)), stop ''a'' ''H4'' 7 (Some (4, 4))])) =
     Inr [((1, 1), (3, 3)), ((3, 3), (4, 4))]
   \<and> snd (get_coords_data (filter (\<lambda>r. m_geometry r \<noteq> None)
      [stop ''a'' ''H1'' 1 (Some (1, 1)), stop ''a'' ''H2'' 3 None])) = Inr []"
  using segments_of_waypoints [of "[stop ''a'' ''H1'' 1 (Some (1, 1)), stop ''a'' ''H2'' 3 None,
       stop ''a'' ''H3'' 5 (Some (3, 3)), stop ''a'' ''H4'' 7 (Some (4, 4))]"]
    segments_of_waypoints [of "[stop ''a'' ''H1'' 1 (Some (1, 1)), stop ''a'' ''H2'' 3 None]"]
  by (simp add: get_coords_data_def stop_def)

text \<open>
  C1 fails on the code. Animal \<open>a\<close> of herd H3 moved to H1 on day 1 and to H2 on day 3;
  H1 and H3 have parcel centroids, H2 has none. \<open>get_moves_bytag\<close> concatenates the
  centroid row of H3, but that row has no \<open>Animal_ID\<close> and \<open>dropna(subset='Animal_ID')\<close>
  removes it at once. What is left is the H1 row and the unresolved H2 row;
  \<open>plot_moves\<close> keeps the H1 row alone and draws nothing, where the claim expects the
  segment from H1 to H3. On the same data \<open>get_moves\<close> of btbgenietool, which
  concatenates the same centroid rows and keeps them, gives that one segment.
\<close>

theorem moves_current_herd_dropped:
  "get_moves_bytag
      [\<lparr>SPH_HERD_N = ''H1'', centroid = (1, 1)\<rparr>, \<lparr>SPH_HERD_N = ''H3'', centroid = (3, 3)\<rparr>]
      [herd_sample ''a'' ''H3'']
      [\<lparr>tag = ''a'', move_to = ''H1'', move_date = 1\<rparr>,
       \<lparr>tag = ''a'', move_to = ''H2'', move_date = 3\<rparr>] =
     Some [\<lparr>m_Animal_ID = Some ''a'', m_HERD_NO = Some ''H3'', m_move_to = Some ''H1'',
             m_move_date = Some 1, m_SPH_HERD_N = Some ''H1'', m_geometry = Some (1, 1),
             m_P2 = None\<rparr>,
           \<lparr>m_Animal_ID = Some ''a'', m_HERD_NO = Some ''H3'', m_move_to = Some ''H2'',
             m_move_date = Some 3, m_SPH_HERD_N = None, m_geometry = None, m_P2 = None\<rparr>]
   \<and> plot_moves
      [\<lparr>SPH_HERD_N = ''H1'', centroid = (1, 1)\<rparr>, \<lparr>SPH_HERD_N = ''H3'', centroid = (3, 3)\<rparr>]
      (get_moves_bytag
        [\<lparr>SPH_HERD_N = ''H1'', centroid = (1, 1)\<rparr>, \<lparr>SPH_HERD_N = ''H3'', centroid = (3, 3)\<rparr>]
        [herd_sample ''a'' ''H3'']
        [\<lparr>tag = ''a'', move_to = ''H1'', move_date = 1\<rparr>,
         \<lparr>tag = ''a'', move_to = ''H2'', move_date = 3\<rparr>]) = Inr []
   \<and> map_option (\<lambda>t. snd (get_coords_data t))
      (get_moves [herd_sample ''a'' ''H3'']
        [\<lparr>tag = ''a'', move_to = ''H1'', move_date = 1\<rparr>,
         \<lparr>tag = ''a'', move_to = ''H2'', move_date = 3\<rparr>]
        [\<lparr>SPH_HERD_N = ''H1'', centroid = (1, 1)\<rparr>, \<lparr>SPH_HERD_N = ''H3'', centroid = (3, 3)\<rparr>]
        ''a'') = Some (Inr [((1, 1), (3, 3))])"
  by code_simp



text \<open>
  C9. The palette of \<open>plot_moves\<close> has 30 colours. The call ends in an IndexError exactly
  when more than 30 animals have at least two rows with a geometry, that is, a trace with
  at least one segment; otherwise it draws one trace per such animal, trace number \<open>k\<close>
  in colour number \<open>k\<close> of the palette.
\<close>

theorem plot_moves_palette:
  "length (random_colors 30 12) = 30
   \<and> (plot_moves lpis_cent (Some moves) = Inl IndexError \<longleftrightarrow>
        30 < card {a. 2 \<le> length (filter (\<lambda>r. m_Animal_ID r = Some a \<and> m_geometry r \<noteq> None) moves)})
   \<and> (case plot_moves lpis_cent (Some moves) of
         Inl e \<Rightarrow> e = IndexError
       | Inr ds \<Rightarrow>
           map color ds =
             take (card {a. 2 \<le> length (filter (\<lambda>r. m_Animal_ID r = Some a \<and>
                                                     m_geometry r \<noteq> None) moves)})
               (random_colors 30 12))"
proof -
  let ?M = "filter (\<lambda>r. m_geometry r \<noteq> None) moves"
  let ?gs = "groupby m_Animal_ID ?M"
  have loc: "\<forall>g\<in>set ?gs. \<forall>r\<in>set (snd g). m_geometry r \<noteq> None"
    using groupby_rows[of _ m_Animal_ID ?M] by fastforce
  have n: "length (filter (\<lambda>g. 2 \<le> length (snd g)) ?gs) =
      card {a. 2 \<le> length (filter (\<lambda>r. m_Animal_ID r = Some a \<and> m_geometry r \<noteq> None) moves)}"
    unfolding groupby_count by (simp add: conj_commute)
  have c: "length (random_colors 30 12) = 30" by (simp add: random_colors_def)
  have "case plot_moves lpis_cent (Some moves) of
         Inl e \<Rightarrow> e = IndexError
       | Inr ds \<Rightarrow>
           map color ds =
             take (card {a. 2 \<le> length (filter (\<lambda>r. m_Animal_ID r = Some a \<and>
                                                     m_geometry r \<noteq> None) moves)})
               (random_colors 30 12)"
    using plot_groups_located[OF loc, where colors="random_colors 30 12" and lpis=lpis_cent and i=0]
    unfolding n c by (auto simp: plot_moves_def Let_def split: sum.splits)
  then show ?thesis using c plot_moves_index_error[of lpis_cent moves] by blast
qed

theorem plot_moves_palette_witness:
  "plot_moves [] (Some (concat (map two_stops [0..<31]))) = Inl IndexError
   \<and> 30 < card {a. 2 \<le> length (filter (\<lambda>r. m_Animal_ID r = Some a \<and> m_geometry r \<noteq> None)
                   (concat (map two_stops [0..<31])))}"
proof -
  have "plot_moves [] (Some (concat (map two_stops [0..<31]))) = Inl IndexError"
    by code_simp
  then show ?thesis
    using plot_moves_palette [of "[]" "concat (map two_stops [0..<31])"] by blast
qed




end
